theory Spec2Isabelle
  imports Complex_Main
begin

section \<open>Explorer (ultralytics/data/explorer/explorer.py)\<close>

text \<open>
  The Explorer is glue code around external collaborators: the embedding model
  (\<^verbatim>\<open>YOLO.embed\<close>), the vector store (lancedb) and the tensor library (torch). Their calls
  are the fields of the record \<open>externals\<close>, passed to every operation; nothing is assumed
  about what they compute.

  A finite float is the rational number it denotes. Comparisons of floats and \<^verbatim>\<open>int(x)\<close>
  are exact on these values. Float arithmetic rounds: the product of line 260 and the mean
  of line 147 are not the exact product and mean, so they too are fields of \<open>externals\<close>
  (\<open>float_mul\<close>, \<open>torch_stack_mean\<close>), left open.
\<close>

subsection \<open>Data\<close>

type_synonym embedding = "rat list"

text \<open>A row of the embedding table: the image file and its vector (the label columns
  play no part in any operation below).\<close>

record emb_row =
  im_file :: string
  vector :: embedding

text \<open>A row of the similarity index, as \<^verbatim>\<open>_yield_sim_idx\<close> yields it.\<close>

record sim_row =
  idx :: nat
  sim_im_file :: string
  count :: nat
  sim_im_files :: "string list"

text \<open>A row of a search result: the table's columns plus \<^verbatim>\<open>_distance\<close>.\<close>

record hit =
  hit_im_file :: string
  distance :: rat

text \<open>The store keeps embedding tables and similarity tables in one namespace.\<close>

datatype lance_table = EmbTable "emb_row list" | SimTable "sim_row list"

fun len_table :: "lance_table \<Rightarrow> nat" where
  "len_table (EmbTable rows) = length rows"
| "len_table (SimTable rows) = length rows"

datatype error =
  ValueError string
| IndexError string
| AttributeError string
| RuntimeError string
| StoreError string

text \<open>An image argument is a path or a pixel array; \<^verbatim>\<open>imgs\<close> is one of them or a list.\<close>

datatype img = ImgPath string | ImgArray "nat list"

datatype imgs_arg = One img | Many "img list"

datatype idx_arg = IdxInt int | IdxList "int list"

datatype split_value = SplitPath string | SplitList "string list"

record batch =
  b_im_file :: string
  b_labels :: "string list"

record externals =
  embed :: "img \<Rightarrow> embedding"
  torch_stack_mean :: "embedding list \<Rightarrow> error + embedding"
  float_mul :: "rat \<Rightarrow> rat \<Rightarrow> rat"
  search :: "lance_table \<Rightarrow> embedding \<Rightarrow> int \<Rightarrow> hit list"
  take_im_file :: "lance_table \<Rightarrow> int list \<Rightarrow> error + string list"
  to_table_filter :: "lance_table \<Rightarrow> string \<Rightarrow> error + emb_row list"
  check_det_dataset :: "string \<Rightarrow> error + (string \<rightharpoonup> split_value)"
  load_dataset :: "string list \<Rightarrow> (string \<rightharpoonup> split_value) \<Rightarrow> error + batch list"
  sanitize_batch :: "batch \<Rightarrow> (string \<rightharpoonup> split_value) \<Rightarrow> batch"

text \<open>The fields of \<^verbatim>\<open>Explorer.__init__\<close>; \<open>connection\<close> is the store's content by table
  name, \<open>table\<close> and \<open>sim_index\<close> are the handles (\<^verbatim>\<open>None\<close> until created).\<close>

record explorer =
  connection :: "string \<rightharpoonup> lance_table"
  table_name :: string
  sim_idx_table_name :: string
  data :: "string option"
  choice_set :: "string list option"
  sim_index :: "lance_table option"
  table :: "lance_table option"

definition init_explorer :: "(string \<rightharpoonup> lance_table) \<Rightarrow> string \<Rightarrow> string \<Rightarrow> explorer" where
  "init_explorer conn stem d =
     \<lparr>connection = conn, table_name = stem, sim_idx_table_name = stem @ ''_sim_idx'',
      data = Some d, choice_set = None, sim_index = None, table = None\<rparr>"

definition table_not_created :: error where
  "table_not_created = ValueError ''Table is not created. Please create the table first.''"

subsection \<open>create_embeddings_table\<close>

text \<open>\<^verbatim>\<open>_yield_batches\<close>: one row per dataset item, the vector asked from the model.\<close>

definition yield_batches :: "externals \<Rightarrow> batch list \<Rightarrow> (string \<rightharpoonup> split_value) \<Rightarrow> emb_row list" where
  "yield_batches ext dataset data_info =
     map (\<lambda>b. let b' = sanitize_batch ext b data_info
               in \<lparr>im_file = b_im_file b', vector = embed ext (ImgPath (b_im_file b'))\<rparr>)
         dataset"

definition create_embeddings_table ::
  "externals \<Rightarrow> explorer \<Rightarrow> bool \<Rightarrow> string \<Rightarrow> (error + unit) \<times> explorer" where
  "create_embeddings_table ext ex force split =
     (if table ex \<noteq> None \<and> \<not> force then (Inr (), ex)
      else if table_name ex \<in> dom (connection ex) \<and> \<not> force
        then (Inr (), ex\<lparr>table := connection ex (table_name ex)\<rparr>)
      else case data ex of
        None \<Rightarrow> (Inl (ValueError ''Data must be provided to create embeddings table''), ex)
      | Some d \<Rightarrow>
         (case check_det_dataset ext d of
            Inl e \<Rightarrow> (Inl e, ex)
          | Inr data_info \<Rightarrow>
             (case data_info split of
                None \<Rightarrow> (Inl (ValueError ''Split is not found in the dataset.''), ex)
              | Some sv \<Rightarrow>
                 (let cs = (case sv of SplitList l \<Rightarrow> l | SplitPath p \<Rightarrow> [p]);
                      ex1 = ex\<lparr>choice_set := Some cs\<rparr>
                  in case load_dataset ext cs data_info of
                       Inl e \<Rightarrow> (Inl e, ex1)
                     | Inr dataset \<Rightarrow>
                        (case dataset of
                           [] \<Rightarrow> (Inl (IndexError ''dataset[0]''), ex1)
                         | b0 # _ \<Rightarrow>
                            (let rows = yield_batches ext dataset data_info;
                                 tbl = EmbTable rows
                             in (Inr (),
                                 ex1\<lparr>connection := (connection ex1)(table_name ex1 \<mapsto> tbl),
                                     table := Some tbl\<rparr>)))))))"

subsection \<open>query, sql_query, get_similar\<close>

text \<open>Line 147: \<^verbatim>\<open>torch.mean(torch.stack(embeds), 0)\<close> when there is more than one embedding
  (the call is torch's, \<open>torch_stack_mean\<close>), \<^verbatim>\<open>embeds[0]\<close> otherwise.\<close>

definition query_vector :: "externals \<Rightarrow> embedding list \<Rightarrow> error + embedding" where
  "query_vector ext embeds =
     (if length embeds > 1 then torch_stack_mean ext embeds
      else case embeds of [] \<Rightarrow> Inl (IndexError ''list index out of range'') | e # _ \<Rightarrow> Inr e)"

definition query :: "externals \<Rightarrow> explorer \<Rightarrow> imgs_arg option \<Rightarrow> int \<Rightarrow> error + hit list" where
  "query ext ex imgs limit =
     (case table ex of
        None \<Rightarrow> Inl table_not_created
      | Some tbl \<Rightarrow>
         (case (case imgs of
                  Some (One (ImgPath p)) \<Rightarrow> Inr [ImgPath p]
                | Some (Many l) \<Rightarrow> Inr l
                | _ \<Rightarrow> Inl (ValueError ''img must be a string or a list of strings.'')) of
            Inl e \<Rightarrow> Inl e
          | Inr l \<Rightarrow>
             (case query_vector ext (map (embed ext) l) of
                Inl e \<Rightarrow> Inl e
              | Inr v \<Rightarrow> Inr (search ext tbl v limit))))"

definition sql_query :: "externals \<Rightarrow> explorer \<Rightarrow> string \<Rightarrow> error + emb_row list" where
  "sql_query ext ex q =
     (case table ex of
        None \<Rightarrow> Inl table_not_created
      | Some tbl \<Rightarrow> to_table_filter ext tbl q)"

text \<open>\<^verbatim>\<open>_check_imgs_or_idxs\<close>. With an index and no table, \<^verbatim>\<open>self.table.to_lance()\<close> is an
  attribute lookup on \<^verbatim>\<open>None\<close>.\<close>

fun idx_list :: "idx_arg \<Rightarrow> int list" where
  "idx_list (IdxList l) = l"
| "idx_list (IdxInt n) = [n]"

definition check_imgs_or_idxs ::
  "externals \<Rightarrow> explorer \<Rightarrow> imgs_arg option \<Rightarrow> idx_arg option \<Rightarrow> error + img list" where
  "check_imgs_or_idxs ext ex img ix =
     (if img = None \<and> ix = None then Inl (ValueError ''Either img or idx must be provided.'')
      else if img \<noteq> None \<and> ix \<noteq> None then Inl (ValueError ''Only one of img or idx must be provided.'')
      else case ix of
        Some i \<Rightarrow>
          (let l = idx_list i
           in case table ex of
                None \<Rightarrow> Inl (AttributeError ''NoneType object has no attribute to_lance'')
              | Some tbl \<Rightarrow>
                 (case take_im_file ext tbl l of
                    Inl e \<Rightarrow> Inl e
                  | Inr files \<Rightarrow> Inr (map ImgPath files)))
      | None \<Rightarrow>
          (case img of
             Some (Many l) \<Rightarrow> Inr l
           | Some (One i) \<Rightarrow> Inr [i]
           | None \<Rightarrow> Inl (ValueError ''Either img or idx must be provided.'')))"

definition get_similar ::
  "externals \<Rightarrow> explorer \<Rightarrow> imgs_arg option \<Rightarrow> idx_arg option \<Rightarrow> int \<Rightarrow> error + hit list" where
  "get_similar ext ex img ix limit =
     (case check_imgs_or_idxs ext ex img ix of
        Inl e \<Rightarrow> Inl e
      | Inr l \<Rightarrow> query ext ex (Some (Many l)) limit)"

subsection \<open>similarity_index\<close>

text \<open>\<^verbatim>\<open>int(x)\<close> on a float truncates towards zero.\<close>

definition py_int :: "rat \<Rightarrow> int" where
  "py_int x = (if x < 0 then \<lceil>x\<rceil> else \<lfloor>x\<rfloor>)"

text \<open>Truth value of \<^verbatim>\<open>top_k\<close>: \<^verbatim>\<open>None\<close> and \<^verbatim>\<open>0.0\<close> are false.\<close>

fun truthy :: "rat option \<Rightarrow> bool" where
  "truthy None = False"
| "truthy (Some x) = (x \<noteq> 0)"

text \<open>Lines 260 and 261: the limit of every per-row query. \<open>mul\<close> is the float product.\<close>

definition sim_top_k :: "(rat \<Rightarrow> rat \<Rightarrow> rat) \<Rightarrow> rat option \<Rightarrow> nat \<Rightarrow> int" where
  "sim_top_k mul top_k n =
     max (if truthy top_k then py_int (mul (the top_k) (of_nat n)) else int n) 1"

text \<open>\<^verbatim>\<open>_yield_sim_idx\<close>: the self-query of row \<open>i\<close>, cut at \<open>max_dist\<close>.\<close>

definition sim_hits :: "externals \<Rightarrow> lance_table \<Rightarrow> embedding \<Rightarrow> int \<Rightarrow> rat \<Rightarrow> hit list" where
  "sim_hits ext tbl e top_k max_dist =
     filter (\<lambda>h. distance h \<le> max_dist) (search ext tbl e top_k)"

definition yield_sim_idx ::
  "externals \<Rightarrow> lance_table \<Rightarrow> embedding list \<Rightarrow> string list \<Rightarrow> int \<Rightarrow> rat \<Rightarrow> sim_row list" where
  "yield_sim_idx ext tbl embeddings im_files top_k max_dist =
     map (\<lambda>i. let sim = sim_hits ext tbl (embeddings ! i) top_k max_dist
               in \<lparr>idx = i, sim_im_file = im_files ! i, count = length sim,
                   sim_im_files = map hit_im_file sim\<rparr>)
         [0..<length embeddings]"

definition similarity_index ::
  "externals \<Rightarrow> explorer \<Rightarrow> rat \<Rightarrow> rat option \<Rightarrow> bool \<Rightarrow> (error + lance_table) \<times> explorer" where
  "similarity_index ext ex max_dist top_k force =
     (case table ex of
        None \<Rightarrow> (Inl table_not_created, ex)
      | Some tbl \<Rightarrow>
         (if sim_index ex \<noteq> None \<and> \<not> force then (Inr (the (sim_index ex)), ex)
          else if truthy top_k \<and> \<not> (the top_k \<le> 1 \<and> the top_k \<ge> 0)
            then (Inl (ValueError ''top_k must be between 0.0 and 1.0.''), ex)
          else if max_dist < 0
            then (Inl (ValueError ''max_dist must be greater than 0.''), ex)
          else
            (let k = sim_top_k (float_mul ext) top_k (len_table tbl)
             in case tbl of
                  SimTable _ \<Rightarrow>
                    (Inl (StoreError ''no column vector''), ex)
                | EmbTable rows \<Rightarrow>
                    (let im_files = map im_file rows;
                         embeddings = map vector rows;
                         sim_table = SimTable (yield_sim_idx ext tbl embeddings im_files k max_dist)
                     in (Inr sim_table,
                         ex\<lparr>connection := (connection ex)(sim_idx_table_name ex \<mapsto> sim_table),
                            sim_index := Some sim_table\<rparr>)))))"

section \<open>Config-table builder (docs/build_tables.py)\<close>

text \<open>
  The script works on Python strings with \<^verbatim>\<open>strip\<close>, \<^verbatim>\<open>split\<close>, \<^verbatim>\<open>replace\<close>, \<^verbatim>\<open>count\<close>,
  \<^verbatim>\<open>find\<close>, \<^verbatim>\<open>startswith\<close> and slices. They are written out below on \<open>string\<close>, for a
  non-empty separator (the script only passes literals). A character is a code point
  below 256; \<open>whitespace\<close> lists the code points below 256 that \<^verbatim>\<open>str.strip()\<close> removes.
\<close>

subsection \<open>Python string operations\<close>

definition startswith :: "string \<Rightarrow> string \<Rightarrow> bool" where
  "startswith s p = (take (length p) s = p)"

text \<open>\<^verbatim>\<open>s.strip(chars)\<close>: drop the characters of \<open>chars\<close> from both ends.\<close>

definition py_strip :: "string \<Rightarrow> string \<Rightarrow> string" where
  "py_strip chars s =
     rev (dropWhile (\<lambda>c. c \<in> set chars) (rev (dropWhile (\<lambda>c. c \<in> set chars) s)))"

definition whitespace :: string where
  "whitespace = [CHR 0x20, CHR 0x09, CHR 0x0A, CHR 0x0B, CHR 0x0C, CHR 0x0D,
                 CHR 0x1C, CHR 0x1D, CHR 0x1E, CHR 0x1F, CHR 0x85, CHR 0xA0]"

text \<open>\<^verbatim>\<open>s.split(sep)\<close>: cut at every occurrence of \<open>sep\<close>, leftmost first, not overlapping;
  \<open>cur\<close> is the piece being read.\<close>

fun split_from :: "string \<Rightarrow> string \<Rightarrow> string \<Rightarrow> string list" where
  "split_from sep cur [] = [cur]"
| "split_from sep cur (c # cs) =
     (if startswith (c # cs) sep then cur # split_from sep [] (drop (length sep - 1) cs)
      else split_from sep (cur @ [c]) cs)"

definition py_split :: "string \<Rightarrow> string \<Rightarrow> string list" where
  "py_split sep s = split_from sep [] s"

text \<open>\<^verbatim>\<open>s.replace(old, new)\<close> and \<^verbatim>\<open>s.count(sub)\<close>, with the same scan.\<close>

fun py_replace :: "string \<Rightarrow> string \<Rightarrow> string \<Rightarrow> string" where
  "py_replace old new [] = []"
| "py_replace old new (c # cs) =
     (if startswith (c # cs) old then new @ py_replace old new (drop (length old - 1) cs)
      else c # py_replace old new cs)"

fun py_count :: "string \<Rightarrow> string \<Rightarrow> nat" where
  "py_count sub [] = 0"
| "py_count sub (c # cs) =
     (if startswith (c # cs) sub then Suc (py_count sub (drop (length sub - 1) cs))
      else py_count sub cs)"

text \<open>\<^verbatim>\<open>s.find(sub)\<close>: the first index, or \<open>-1\<close>.\<close>

fun find_from :: "string \<Rightarrow> nat \<Rightarrow> string \<Rightarrow> int" where
  "find_from sub i [] = - 1"
| "find_from sub i (c # cs) =
     (if startswith (c # cs) sub then int i else find_from sub (Suc i) cs)"

definition py_find :: "string \<Rightarrow> string \<Rightarrow> int" where
  "py_find sub s = find_from sub 0 s"

text \<open>Slices \<^verbatim>\<open>s[i:j]\<close> and \<^verbatim>\<open>s[i:]\<close>: a negative bound counts from the end, and every bound
  is clamped to the string.\<close>

definition slice_index :: "nat \<Rightarrow> int \<Rightarrow> nat" where
  "slice_index n i = (if i < 0 then nat (max 0 (int n + i)) else min (nat i) n)"

definition py_slice :: "string \<Rightarrow> int \<Rightarrow> int \<Rightarrow> string" where
  "py_slice s i j =
     (let lo = slice_index (length s) i; hi = slice_index (length s) j
      in take (hi - lo) (drop lo s))"

definition py_slice_from :: "string \<Rightarrow> int \<Rightarrow> string" where
  "py_slice_from s i = drop (slice_index (length s) i) s"

text \<open>\<^verbatim>\<open>sub in s\<close>; used to state which lines a theorem is about.\<close>

fun occurs_in :: "string \<Rightarrow> string \<Rightarrow> bool" where
  "occurs_in sub [] = (sub = [])"
| "occurs_in sub (c # cs) = (startswith (c # cs) sub \<or> occurs_in sub cs)"

subsection \<open>The script\<close>

definition cfg_sections :: "string list" where
  "cfg_sections =
     [''Train settings'', ''Segmentation train settings'', ''Classification train settings'',
      ''Val/Test settings'', ''Predict settings'', ''Visualize settings'', ''Export settings'',
      ''Hyperparameters'', ''Augmentation'', ''Segmentation Augmentations'',
      ''Classification Augmentations'', ''Custom config.yaml'', ''Tracker'']"

text \<open>\<^verbatim>\<open>txt\<close>: the non-empty lines of the file, each stripped of spaces and dashes.\<close>

definition read_txt :: "string list \<Rightarrow> string list" where
  "read_txt file_lines = map (py_strip '' -'') (filter (\<lambda>l. l \<noteq> []) file_lines)"

definition n_section :: "nat \<Rightarrow> string" where
  "n_section N = replicate N CHR ''#'' @ '' ''"

definition section_depth :: "string \<Rightarrow> nat" where
  "section_depth section = py_count ''#'' (hd (py_split '' '' section))"

definition find_sections :: "string list \<Rightarrow> nat \<Rightarrow> string list" where
  "find_sections txt_data max_repeats =
     concat (map (\<lambda>ss. map (py_strip '' -'') (filter (\<lambda>l. startswith l ss) txt_data))
                 (map (\<lambda>i. replicate i CHR ''#'' @ '' '') [1..<max_repeats + 1]))"

definition text_2_key :: "string \<Rightarrow> string" where
  "text_2_key line = py_strip ''# -'' line @ '': ''"

text \<open>\<^verbatim>\<open>extract_type\<close> of the source (the name is a keyword of Isabelle, hence the suffix).\<close>

definition extract_type_line :: "string \<Rightarrow> string \<times> string" where
  "extract_type_line line =
     (let l = py_find ''('' line; r = py_find '')'' line;
          l_type = py_strip '')('' (py_slice line l r);
          line' = py_strip whitespace (py_slice_from line (r + 1))
      in (py_replace '', '' [] (py_replace ''optional'' [] (py_replace ''|'' ''or'' l_type)),
          line'))"

definition sections :: "string list \<Rightarrow> string list" where
  "sections txt = filter (\<lambda>x. py_strip ''# '' x \<in> set cfg_sections) (find_sections txt 2)"

text \<open>\<^verbatim>\<open>a, b = parts\<close> raises unless there are exactly two parts.\<close>

definition unpack2 :: "string list \<Rightarrow> error + string \<times> string" where
  "unpack2 parts =
     (case parts of
        [a, b] \<Rightarrow> Inr (a, b)
      | [] \<Rightarrow> Inl (ValueError ''not enough values to unpack (expected 2, got 0)'')
      | [a] \<Rightarrow> Inl (ValueError ''not enough values to unpack (expected 2, got 1)'')
      | _ \<Rightarrow> Inl (ValueError ''too many values to unpack (expected 2)''))"

record entry =
  e_key :: string
  e_value :: string
  e_type :: string
  e_desc :: string

text \<open>Lines 93 to 96 of the loop: what one entry line yields.\<close>

definition parse_entry :: "string \<Rightarrow> error + entry" where
  "parse_entry line =
     (case unpack2 (py_split ''# '' line) of
        Inl e \<Rightarrow> Inl e
      | Inr (ent, comment) \<Rightarrow>
         (let comment1 = py_replace '':'' '' -'' (hd (py_split ''http'' comment));
              (v_type, comment2) = extract_type_line comment1
          in case unpack2 (py_split '': '' ent) of
               Inl e \<Rightarrow> Inl e
             | Inr (k, v) \<Rightarrow> Inr \<lparr>e_key = k, e_value = v, e_type = v_type, e_desc = comment2\<rparr>))"

definition NL :: string where
  "NL = ''\<newline>''"

text \<open>The two f-strings of lines 98 and 101.\<close>

definition entry_text :: "bool \<Rightarrow> nat \<Rightarrow> entry \<Rightarrow> string" where
  "entry_text is_sub sub_d e =
     (if \<not> is_sub
      then NL @ ''  '' @ e_key e @ '': '' @ NL @ ''    value: '' @ e_value e
           @ NL @ ''    type: '' @ e_type e @ NL @ ''    desc: '' @ e_desc e
      else (let indent = replicate (sub_d * 2) CHR '' ''
            in NL @ indent @ e_key e @ '': '' @ NL @ indent @ ''value: '' @ e_value e
               @ NL @ indent @ ''type: '' @ e_type e @ NL @ indent @ ''desc: '' @ e_desc e))"

text \<open>The inner loop over \<^verbatim>\<open>txt[idx + 1:]\<close>, with its state \<^verbatim>\<open>section_text\<close>, \<^verbatim>\<open>is_sub\<close>,
  \<^verbatim>\<open>sub_d\<close>; \<^verbatim>\<open>break\<close> returns the text collected so far.\<close>

fun section_loop :: "string list \<Rightarrow> string \<Rightarrow> bool \<Rightarrow> nat \<Rightarrow> error + string" where
  "section_loop [] section_text is_sub sub_d = Inr section_text"
| "section_loop (line # rest) section_text is_sub sub_d =
     (let n = section_depth line
      in if n = 0 then
           (case parse_entry line of
              Inl e \<Rightarrow> Inl e
            | Inr e \<Rightarrow> section_loop rest (section_text @ entry_text is_sub sub_d e) is_sub sub_d)
         else if n = 1 then Inr section_text
         else section_loop rest
                (section_text @ NL @ replicate ((n - 1) * 2) CHR '' '' @ text_2_key line) True n)"

text \<open>\<^verbatim>\<open>txt.index(s)\<close>: the first position of \<open>s\<close>.\<close>

definition list_index :: "string list \<Rightarrow> string \<Rightarrow> error + nat" where
  "list_index xs x =
     (if x \<in> set xs then Inr (length (takeWhile (\<lambda>y. y \<noteq> x) xs))
      else Inl (ValueError ''x is not in list''))"

text \<open>One turn of the outer loop, up to the text handed to \<^verbatim>\<open>yaml.safe_load\<close>.\<close>

definition section_table :: "string list \<Rightarrow> string \<Rightarrow> error + string" where
  "section_table txt s =
     (case list_index txt s of
        Inl e \<Rightarrow> Inl e
      | Inr i \<Rightarrow> section_loop (drop (i + 1) txt) (text_2_key s) False 0)"

text \<open>The outer loop; the YAML parser is a parameter.\<close>

fun tables_loop :: "(string \<Rightarrow> error + 'y) \<Rightarrow> string list \<Rightarrow> string list \<Rightarrow> error + 'y list" where
  "tables_loop safe_load txt [] = Inr []"
| "tables_loop safe_load txt (s # ss) =
     (case section_table txt s of
        Inl e \<Rightarrow> Inl e
      | Inr section_text \<Rightarrow>
         (case safe_load section_text of
            Inl e \<Rightarrow> Inl e
          | Inr t \<Rightarrow>
             (case tables_loop safe_load txt ss of
                Inl e \<Rightarrow> Inl e
              | Inr ts \<Rightarrow> Inr (t # ts))))"

definition tables :: "(string \<Rightarrow> error + 'y) \<Rightarrow> string list \<Rightarrow> error + 'y list" where
  "tables safe_load file_lines =
     (let txt = read_txt file_lines in tables_loop safe_load txt (sections txt))"

section \<open>A concrete model and store, for the examples\<close>

text \<open>An exact nearest-neighbour search by squared Euclidean distance over the rows of a
  table, an embedding that depends on the path, a mean and a product without rounding,
  and a two-row table. They stand for the collaborators in the examples only.\<close>

definition exact_stack_mean :: "embedding list \<Rightarrow> error + embedding" where
  "exact_stack_mean embeds =
     (if \<forall>e \<in> set embeds. length e = length (hd embeds)
      then Inr (map (\<lambda>j. sum_list (map (\<lambda>e. e ! j) embeds) / of_nat (length embeds))
                    [0..<length (hd embeds)])
      else Inl (RuntimeError ''stack expects each tensor to be equal size''))"

definition l2sq :: "embedding \<Rightarrow> embedding \<Rightarrow> rat" where
  "l2sq v w = sum_list (map (\<lambda>(a, b). (a - b) * (a - b)) (zip v w))"

fun knn_search :: "lance_table \<Rightarrow> embedding \<Rightarrow> int \<Rightarrow> hit list" where
  "knn_search (EmbTable rows) v k =
     take (nat k) (sort_key distance
       (map (\<lambda>r. \<lparr>hit_im_file = im_file r, distance = l2sq v (vector r)\<rparr>) rows))"
| "knn_search (SimTable rows) v k = []"

fun path_embed :: "img \<Rightarrow> embedding" where
  "path_embed (ImgPath p) = [of_nat (length p), 1]"
| "path_embed (ImgArray a) = map of_nat a"

fun rows_take :: "lance_table \<Rightarrow> int list \<Rightarrow> error + string list" where
  "rows_take (EmbTable rows) l =
     (if \<forall>i \<in> set l. 0 \<le> i \<and> i < int (length rows)
      then Inr (map (\<lambda>i. im_file (rows ! nat i)) l)
      else Inl (StoreError ''index out of bounds''))"
| "rows_take (SimTable rows) l = Inl (StoreError ''no column im_file'')"

definition demo_ext :: externals where
  "demo_ext =
     \<lparr>embed = path_embed, torch_stack_mean = exact_stack_mean, float_mul = (*),
      search = knn_search, take_im_file = rows_take,
      to_table_filter = (\<lambda>t q. case t of EmbTable rows \<Rightarrow> Inr rows | SimTable _ \<Rightarrow> Inr []),
      check_det_dataset = (\<lambda>d. Inr [''train'' \<mapsto> SplitPath ''images/train'']),
      load_dataset = (\<lambda>cs info. Inr (map (\<lambda>p. \<lparr>b_im_file = p, b_labels = []\<rparr>) cs)),
      sanitize_batch = (\<lambda>b info. b)\<rparr>"

definition demo_rows :: "emb_row list" where
  "demo_rows = [\<lparr>im_file = ''a.jpg'', vector = [0, 0]\<rparr>,
                \<lparr>im_file = ''b.jpg'', vector = [3, 4]\<rparr>]"

definition demo_ex :: explorer where
  "demo_ex =
     (init_explorer Map.empty ''coco128'' ''coco128.yaml'')\<lparr>table := Some (EmbTable demo_rows)\<rparr>"

definition demo_sim :: lance_table where
  "demo_sim =
     SimTable [\<lparr>idx = 0, sim_im_file = ''a.jpg'', count = 1, sim_im_files = [''a.jpg'']\<rparr>,
               \<lparr>idx = 1, sim_im_file = ''b.jpg'', count = 1, sim_im_files = [''b.jpg'']\<rparr>]"

definition demo_cached :: explorer where
  "demo_cached = demo_ex\<lparr>sim_index := Some demo_sim\<rparr>"

definition demo_txt :: "string list" where
  "demo_txt =
     [''## Augmentation'', ''a: 1  # (int) x'', ''## Tracker'', ''b: 2  # (int) y'',
      ''# Export settings'', ''c: 3  # (int) z'']"

section \<open>Properties of the Explorer\<close>

subsection \<open>Auxiliary facts\<close>

lemma yield_sim_idx_length: "length (yield_sim_idx ext tbl es fs k m) = length es"
  by (simp add: yield_sim_idx_def)

lemma yield_sim_idx_nth:
  "i < length es \<Longrightarrow>
   yield_sim_idx ext tbl es fs k m ! i =
     \<lparr>idx = i, sim_im_file = fs ! i,
      count = length (sim_hits ext tbl (es ! i) k m),
      sim_im_files = map hit_im_file (sim_hits ext tbl (es ! i) k m)\<rparr>"
  by (simp add: yield_sim_idx_def Let_def)

text \<open>Past the three guards, the index is built from the table alone.\<close>

lemma similarity_index_built:
  "table ex = Some (EmbTable rows) \<Longrightarrow> force \<or> sim_index ex = None \<Longrightarrow> 0 \<le> max_dist \<Longrightarrow>
   top_k = None \<or> (\<exists>t. top_k = Some t \<and> 0 \<le> t \<and> t \<le> 1) \<Longrightarrow>
   fst (similarity_index ext ex max_dist top_k force) =
     Inr (SimTable (yield_sim_idx ext (EmbTable rows) (map vector rows) (map im_file rows)
                      (sim_top_k (float_mul ext) top_k (length rows)) max_dist))"
  by (auto simp add: similarity_index_def Let_def)

text \<open>For a fraction other than zero the limit is the truncated float product, at least 1.\<close>

lemma sim_top_k_fraction:
  "t \<noteq> 0 \<Longrightarrow> sim_top_k mul (Some t) n = max (py_int (mul t (of_nat n))) 1"
  by (simp add: sim_top_k_def)

text \<open>The states the operations reach keep a table whenever they keep an index: only
  \<open>similarity_index\<close> sets the index, and it needs the table.\<close>

lemma similarity_index_keeps_table:
  "sim_index ex \<noteq> None \<longrightarrow> table ex \<noteq> None \<Longrightarrow>
   similarity_index ext ex max_dist top_k force = (r, ex') \<Longrightarrow>
   sim_index ex' \<noteq> None \<longrightarrow> table ex' \<noteq> None"
  by (auto simp add: similarity_index_def Let_def split: option.splits if_splits lance_table.splits)

subsection \<open>The claims\<close>

text \<open>
  C1 (as amended). For every row \<open>i\<close> of the embedding table, the index built by
  \<open>similarity_index\<close> records the row's position and file, the number of hits of the row's
  self-query (limited to the computed \<open>top_k\<close>) whose distance is at most \<open>max_dist\<close>, and
  the file paths of those hits. The row's own image is not left out: it is listed, and
  counted, exactly when the store returns it within \<open>max_dist\<close>.
\<close>

theorem similarity_index_row:
  assumes "table ex = Some (EmbTable rows)" "force \<or> sim_index ex = None" "0 \<le> max_dist"
    "top_k = None \<or> (\<exists>t. top_k = Some t \<and> 0 \<le> t \<and> t \<le> 1)" "i < length rows"
  shows "\<exists>sim. fst (similarity_index ext ex max_dist top_k force) = Inr (SimTable sim) \<and>
     length sim = length rows \<and>
     idx (sim ! i) = i \<and> sim_im_file (sim ! i) = im_file (rows ! i) \<and>
     count (sim ! i) =
       length (filter (\<lambda>h. distance h \<le> max_dist)
                 (search ext (EmbTable rows) (vector (rows ! i)) (sim_top_k (float_mul ext) top_k (length rows)))) \<and>
     sim_im_files (sim ! i) =
       map hit_im_file (filter (\<lambda>h. distance h \<le> max_dist)
                 (search ext (EmbTable rows) (vector (rows ! i)) (sim_top_k (float_mul ext) top_k (length rows)))) \<and>
     (im_file (rows ! i) \<in> set (sim_im_files (sim ! i)) \<longleftrightarrow>
        (\<exists>h \<in> set (search ext (EmbTable rows) (vector (rows ! i)) (sim_top_k (float_mul ext) top_k (length rows))).
            distance h \<le> max_dist \<and> hit_im_file h = im_file (rows ! i)))"
proof -
  let ?sim = "yield_sim_idx ext (EmbTable rows) (map vector rows) (map im_file rows)
                      (sim_top_k (float_mul ext) top_k (length rows)) max_dist"
  have 1: "fst (similarity_index ext ex max_dist top_k force) = Inr (SimTable ?sim)"
    using assms(1-4) by (rule similarity_index_built)
  have 2: "i < length (map vector rows)" using assms(5) by simp
  show ?thesis
    apply (rule exI [of _ ?sim])
    using assms(5)
    by (force simp add: 1 yield_sim_idx_length yield_sim_idx_nth [OF 2] sim_hits_def)
qed

text \<open>The amended C1 at the two-row table, first row, with \<open>max_dist = 1/5\<close>: the only hit
  within the distance is the row itself.\<close>

theorem similarity_index_row_witness:
  "\<exists>sim. fst (similarity_index demo_ext demo_ex (1 / 5) None True) = Inr (SimTable sim) \<and>
     length sim = 2 \<and> idx (sim ! 0) = 0 \<and> sim_im_file (sim ! 0) = ''a.jpg'' \<and>
     count (sim ! 0) = 1 \<and> sim_im_files (sim ! 0) = [''a.jpg'']"
proof -
  have t: "table demo_ex = Some (EmbTable demo_rows)"
    by (simp add: demo_ex_def)
  have i: "0 < length demo_rows"
    by (simp add: demo_rows_def)
  have h: "filter (\<lambda>h. distance h \<le> 1 / 5)
        (search demo_ext (EmbTable demo_rows) (vector (demo_rows ! 0))
           (sim_top_k (float_mul demo_ext) None (length demo_rows))) = [\<lparr>hit_im_file = ''a.jpg'', distance = 0\<rparr>]"
    by code_simp
  show ?thesis
    using similarity_index_row [OF t, of True "1 / 5" None 0 demo_ext] i
    unfolding h by (auto simp add: demo_rows_def)
qed

text \<open>C1 as stated fails: a table of two images five units apart, \<open>max_dist = 1/5\<close>. No
  other image is within the distance of either row, and each row's count is 1, its own
  file being the one listed.\<close>

theorem similarity_index_counts_own_image:
  "fst (similarity_index demo_ext demo_ex (1 / 5) None True) =
     Inr (SimTable
       [\<lparr>idx = 0, sim_im_file = ''a.jpg'', count = 1, sim_im_files = [''a.jpg'']\<rparr>,
        \<lparr>idx = 1, sim_im_file = ''b.jpg'', count = 1, sim_im_files = [''b.jpg'']\<rparr>])"
  by code_simp

text \<open>
  C2. The claim asks, for every fraction \<open>0 \<le> t \<le> 1\<close> and every table of \<open>n \<ge> 1\<close> rows, for
  the limit \<open>max (int (t * n)) 1\<close> on each per-row query. At \<open>t = 0\<close> that limit is 1. The
  code tests \<^verbatim>\<open>if top_k\<close>, which is false for \<open>0.0\<close> as it is for \<^verbatim>\<open>None\<close>: on ten rows the
  limit is 10, whatever the float product is, and on the two-row table, with a generous
  \<open>max_dist\<close>, each row keeps two hits where a limit of 1 would leave one.
\<close>

theorem top_k_zero_takes_all_rows:
  "sim_top_k mul (Some 0) 10 = 10 \<and>
   fst (similarity_index demo_ext demo_ex 30 (Some 0) True) =
     Inr (SimTable
       [\<lparr>idx = 0, sim_im_file = ''a.jpg'', count = 2, sim_im_files = [''a.jpg'', ''b.jpg'']\<rparr>,
        \<lparr>idx = 1, sim_im_file = ''b.jpg'', count = 2, sim_im_files = [''b.jpg'', ''a.jpg'']\<rparr>])"
proof -
  have "sim_top_k mul (Some 0) 10 = 10"
    by (simp add: sim_top_k_def)
  moreover have "fst (similarity_index demo_ext demo_ex 30 (Some 0) True) =
     Inr (SimTable
       [\<lparr>idx = 0, sim_im_file = ''a.jpg'', count = 2, sim_im_files = [''a.jpg'', ''b.jpg'']\<rparr>,
        \<lparr>idx = 1, sim_im_file = ''b.jpg'', count = 2, sim_im_files = [''b.jpg'', ''a.jpg'']\<rparr>])"
    by code_simp
  ultimately show ?thesis by simp
qed



text \<open>
  C4 (as amended). On an Explorer with a table, when \<open>force\<close> is set or no index is cached,
  \<open>similarity_index\<close> raises a \<^verbatim>\<open>ValueError\<close> for every \<open>top_k\<close> outside \<open>[0, 1]\<close> and for
  every negative \<open>max_dist\<close>, whatever the model and the store are, and leaves the Explorer
  (its stored index and its connection) as it was.
\<close>

theorem similarity_index_validation:
  assumes "table ex = Some tbl" "force \<or> sim_index ex = None"
  shows "(top_k = Some t \<and> (t < 0 \<or> 1 < t) \<longrightarrow>
       similarity_index ext ex max_dist top_k force =
         (Inl (ValueError ''top_k must be between 0.0 and 1.0.''), ex)) \<and>
     (max_dist < 0 \<longrightarrow>
       (\<exists>msg. similarity_index ext ex max_dist top_k force = (Inl (ValueError msg), ex)))"
  using assms by (auto simp add: similarity_index_def)

text \<open>The amended C4 at \<open>top_k = 1.5\<close>, and at \<open>max_dist = -0.1\<close> with the default \<open>top_k\<close>.\<close>

theorem similarity_index_validation_witness:
  "similarity_index demo_ext demo_ex (1 / 5) (Some (3 / 2)) True =
     (Inl (ValueError ''top_k must be between 0.0 and 1.0.''), demo_ex) \<and>
   (\<exists>msg. similarity_index demo_ext demo_ex (- 1 / 10) None True =
     (Inl (ValueError msg), demo_ex))"
proof -
  have t: "table demo_ex = Some (EmbTable demo_rows)"
    by (simp add: demo_ex_def)
  have f: "True \<or> sim_index demo_ex = None" by simp
  show ?thesis
    using similarity_index_validation [OF t f, of "Some (3 / 2)" "3 / 2" demo_ext "1 / 5"]
      similarity_index_validation [OF t f, of None 0 demo_ext "- 1 / 10"]
    by simp
qed

text \<open>C4 as stated fails once an index is cached and \<open>force\<close> is false: with \<open>top_k = 1.5\<close>
  and \<open>max_dist = -0.1\<close> the call returns the cached index and raises nothing.\<close>

theorem similarity_index_cache_skips_validation:
  "similarity_index demo_ext demo_cached (- 1 / 10) (Some (3 / 2)) False =
     (Inr demo_sim, demo_cached)"
  by (simp add: similarity_index_def demo_cached_def demo_ex_def)

text \<open>
  C5. \<open>get_similar\<close> raises when both \<open>img\<close> and \<open>idx\<close> are given and when neither is. With
  \<open>idx\<close> alone, on an Explorer with a table, the file paths are looked up in the table,
  for the one-element list of a single index and for a list of indexes as it is given; the
  result is that of \<open>query\<close> on the list of the paths found, and a lookup that fails is
  the failure of the call.
\<close>

theorem get_similar_img_or_idx:
  "(img \<noteq> None \<and> ix \<noteq> None \<longrightarrow>
      get_similar ext ex img ix limit =
        Inl (ValueError ''Only one of img or idx must be provided.'')) \<and>
   (img = None \<and> ix = None \<longrightarrow>
      get_similar ext ex img ix limit =
        Inl (ValueError ''Either img or idx must be provided.'')) \<and>
   (table ex = Some tbl \<and> take_im_file ext tbl [n] = Inr files \<longrightarrow>
      get_similar ext ex None (Some (IdxInt n)) limit =
        query ext ex (Some (Many (map ImgPath files))) limit) \<and>
   (table ex = Some tbl \<and> take_im_file ext tbl ns = Inr files' \<longrightarrow>
      get_similar ext ex None (Some (IdxList ns)) limit =
        query ext ex (Some (Many (map ImgPath files'))) limit) \<and>
   (table ex = Some tbl \<and> take_im_file ext tbl [n] = Inl e \<longrightarrow>
      get_similar ext ex None (Some (IdxInt n)) limit = Inl e) \<and>
   (table ex = Some tbl \<and> take_im_file ext tbl ns = Inl e' \<longrightarrow>
      get_similar ext ex None (Some (IdxList ns)) limit = Inl e')"
  by (auto simp add: get_similar_def check_imgs_or_idxs_def)

text \<open>C5 on the two-row table: both arguments, none, the index 1, which is looked up as
  \<^verbatim>\<open>b.jpg\<close>, the list of indexes 1 and 0, looked up as \<^verbatim>\<open>b.jpg\<close> and \<^verbatim>\<open>a.jpg\<close>, and the
  indexes 7 and 0 with 7, which the table does not have.\<close>

theorem get_similar_img_or_idx_witness:
  "get_similar demo_ext demo_ex (Some (One (ImgPath ''a.jpg''))) (Some (IdxInt 1)) 25 =
     Inl (ValueError ''Only one of img or idx must be provided.'') \<and>
   get_similar demo_ext demo_ex None None 25 =
     Inl (ValueError ''Either img or idx must be provided.'') \<and>
   get_similar demo_ext demo_ex None (Some (IdxInt 1)) 25 =
     query demo_ext demo_ex (Some (Many [ImgPath ''b.jpg''])) 25 \<and>
   get_similar demo_ext demo_ex None (Some (IdxList [1, 0])) 25 =
     query demo_ext demo_ex (Some (Many [ImgPath ''b.jpg'', ImgPath ''a.jpg''])) 25 \<and>
   get_similar demo_ext demo_ex None (Some (IdxInt 7)) 25 =
     Inl (StoreError ''index out of bounds'') \<and>
   get_similar demo_ext demo_ex None (Some (IdxList [0, 7])) 25 =
     Inl (StoreError ''index out of bounds'')"
proof -
  have k1: "take_im_file demo_ext (EmbTable demo_rows) [1] = Inr [''b.jpg'']"
    by (simp add: demo_ext_def demo_rows_def)
  have k2: "take_im_file demo_ext (EmbTable demo_rows) [1, 0] = Inr [''b.jpg'', ''a.jpg'']"
    by (simp add: demo_ext_def demo_rows_def)
  have k3: "take_im_file demo_ext (EmbTable demo_rows) [7] = Inl (StoreError ''index out of bounds'')"
    by (simp add: demo_ext_def demo_rows_def)
  have k4: "take_im_file demo_ext (EmbTable demo_rows) [0, 7] = Inl (StoreError ''index out of bounds'')"
    by (simp add: demo_ext_def demo_rows_def)
  have t: "table demo_ex = Some (EmbTable demo_rows)"
    by (simp add: demo_ex_def)
  note a = get_similar_img_or_idx [of "Some (One (ImgPath ''a.jpg''))" "Some (IdxInt 1)" demo_ext
      demo_ex 25 "EmbTable demo_rows" 1 "[''b.jpg'']" "[1, 0]" "[''b.jpg'', ''a.jpg'']"
      "StoreError ''index out of bounds''" "StoreError ''index out of bounds''"]
  note b = get_similar_img_or_idx [of None None demo_ext
      demo_ex 25 "EmbTable demo_rows" 7 "[]" "[0, 7]" "[]"
      "StoreError ''index out of bounds''" "StoreError ''index out of bounds''"]
  show ?thesis
    using a b k1 k2 k3 k4 t by simp
qed

text \<open>
  C6. On an Explorer whose table is \<^verbatim>\<open>None\<close>, \<open>query\<close>, \<open>sql_query\<close> and \<open>similarity_index\<close>
  raise the error "Table is not created" for every argument and whatever the model and
  the store are; \<open>similarity_index\<close> leaves the Explorer as it was.
\<close>

theorem no_table_raises:
  "table ex = None \<Longrightarrow>
   query ext ex imgs limit = Inl table_not_created \<and>
   sql_query ext ex q = Inl table_not_created \<and>
   similarity_index ext ex max_dist top_k force = (Inl table_not_created, ex)"
  by (simp add: query_def sql_query_def similarity_index_def)

text \<open>C6 on a fresh Explorer.\<close>

theorem no_table_raises_witness:
  "query demo_ext (init_explorer Map.empty ''coco128'' ''coco128.yaml'')
      (Some (One (ImgPath ''a.jpg''))) 25 = Inl table_not_created \<and>
   sql_query demo_ext (init_explorer Map.empty ''coco128'' ''coco128.yaml'') ''x > 1'' =
      Inl table_not_created \<and>
   similarity_index demo_ext (init_explorer Map.empty ''coco128'' ''coco128.yaml'') (1 / 5) None True =
      (Inl table_not_created, init_explorer Map.empty ''coco128'' ''coco128.yaml'')"
proof -
  have t: "table (init_explorer Map.empty ''coco128'' ''coco128.yaml'') = None"
    by (simp add: init_explorer_def)
  show ?thesis
    by (rule no_table_raises [OF t])
qed

text \<open>
  C7. With \<open>force\<close> false, \<open>create_embeddings_table\<close> on an Explorer that holds a table
  returns at once with the Explorer unchanged; on an Explorer that holds none, while a
  table is stored under its table name, it only sets the handle to that stored table. In
  both cases the result is the same whatever the dataset and the model are, and the
  store's content (\<open>connection\<close>) is unchanged.
\<close>

theorem create_embeddings_table_reuse:
  "\<not> force \<Longrightarrow>
   (table ex = Some t \<longrightarrow> create_embeddings_table ext ex force split = (Inr (), ex)) \<and>
   (table ex = None \<and> connection ex (table_name ex) = Some t \<longrightarrow>
      create_embeddings_table ext ex force split = (Inr (), ex\<lparr>table := Some t\<rparr>))"
  by (auto simp add: create_embeddings_table_def)

text \<open>C7 on the two-row table held in memory, and on a fresh Explorer over a store that
  has the table under \<^verbatim>\<open>coco128\<close>.\<close>

theorem create_embeddings_table_reuse_witness:
  "create_embeddings_table demo_ext demo_ex False ''train'' = (Inr (), demo_ex) \<and>
   create_embeddings_table demo_ext
      (init_explorer [''coco128'' \<mapsto> EmbTable demo_rows] ''coco128'' ''coco128.yaml'')
      False ''train'' =
     (Inr (), (init_explorer [''coco128'' \<mapsto> EmbTable demo_rows] ''coco128'' ''coco128.yaml'')
                \<lparr>table := Some (EmbTable demo_rows)\<rparr>)"
proof -
  have f: "\<not> False" by simp
  have t: "table demo_ex = Some (EmbTable demo_rows)"
    by (simp add: demo_ex_def)
  let ?e = "init_explorer [''coco128'' \<mapsto> EmbTable demo_rows] ''coco128'' ''coco128.yaml''"
  have p: "table ?e = None \<and> connection ?e (table_name ?e) = Some (EmbTable demo_rows)"
    by (simp add: init_explorer_def)
  show ?thesis
    using create_embeddings_table_reuse [OF f, of demo_ex "EmbTable demo_rows" demo_ext "''train''"]
      create_embeddings_table_reuse [OF f, of ?e "EmbTable demo_rows" demo_ext "''train''"] t p
    by simp
qed

text \<open>
  C10. On an Explorer with a table and a cached index, \<open>similarity_index\<close> with \<open>force\<close>
  false returns the cached index and leaves the Explorer unchanged, for every \<open>top_k\<close> and
  every \<open>max_dist\<close>, those out of range included: the cache test comes before the
  validation.
\<close>

theorem similarity_index_cached:
  "table ex = Some tbl \<Longrightarrow> sim_index ex = Some si \<Longrightarrow> \<not> force \<Longrightarrow>
   similarity_index ext ex max_dist top_k force = (Inr si, ex)"
  by (simp add: similarity_index_def)

text \<open>C10 with \<open>top_k = 1.5\<close> and \<open>max_dist = -0.1\<close>.\<close>

theorem similarity_index_cached_witness:
  "similarity_index demo_ext demo_cached (- 1 / 10) (Some (3 / 2)) False =
     (Inr demo_sim, demo_cached)"
proof -
  have t: "table demo_cached = Some (EmbTable demo_rows)"
    by (simp add: demo_cached_def demo_ex_def)
  have s: "sim_index demo_cached = Some demo_sim"
    by (simp add: demo_cached_def)
  have f: "\<not> False" by simp
  show ?thesis
    by (rule similarity_index_cached [OF t s f])
qed

section \<open>Properties of the config-table builder\<close>

subsection \<open>Auxiliary facts on the string operations\<close>

lemma startswith_Nil [simp]: "startswith s []"
  by (simp add: startswith_def)

lemma startswith_Cons_Cons [simp]: "startswith (c # cs) (p # ps) = (c = p \<and> startswith cs ps)"
  by (auto simp add: startswith_def)

lemma startswith_Nil_left [simp]: "startswith [] p = (p = [])"
  by (auto simp add: startswith_def)

text \<open>A split has at least one piece, so \<^verbatim>\<open>s.split(sep)[0]\<close> never fails.\<close>

lemma split_from_nonempty: "split_from sep cur s \<noteq> []"
  by (induction s arbitrary: cur) auto

text \<open>An occurrence of \<open>sep\<close> cannot run over a character that \<open>sep\<close> does not have.\<close>

lemma startswith_append_notin:
  "startswith (A @ c # B) sep \<Longrightarrow> c \<notin> set sep \<Longrightarrow> startswith A sep"
proof (induction A arbitrary: sep)
  case Nil
  then show ?case by (cases sep) auto
next
  case (Cons a A)
  then show ?case by (cases sep) auto
qed

lemma split_from_skip:
  "\<not> occurs_in sep A \<Longrightarrow> c \<notin> set sep \<Longrightarrow>
   split_from sep cur (A @ c # B) = split_from sep (cur @ A @ [c]) B"
proof (induction A arbitrary: cur)
  case Nil
  then show ?case by (cases sep) auto
next
  case (Cons a A)
  from Cons.prems have n1: "\<not> startswith (a # A) sep" and n2: "\<not> occurs_in sep A" by auto
  from n1 Cons.prems(2) have "\<not> startswith ((a # A) @ c # B) sep"
    using startswith_append_notin by blast
  then show ?case using Cons.IH [OF n2 Cons.prems(2)] by simp
qed

lemma hd_split_from: "hd (split_from sep cur B) = cur @ hd (split_from sep [] B)"
proof (induction B arbitrary: cur)
  case Nil
  then show ?case by simp
next
  case (Cons b B)
  show ?case
  proof (cases "startswith (b # B) sep")
    case True
    then show ?thesis by simp
  next
    case False
    then show ?thesis using Cons.IH [of "cur @ [b]"] Cons.IH [of "[b]"] by simp
  qed
qed

lemma find_from_single:
  "x \<notin> set A \<Longrightarrow> find_from [x] i (A @ x # B) = int (i + length A)"
  by (induction A arbitrary: i) auto

lemma py_replace_single_skip:
  "x \<notin> set A \<Longrightarrow> py_replace [x] new (A @ B) = A @ py_replace [x] new B"
  by (induction A) auto

lemma dropWhile_none: "\<forall>c \<in> set s. \<not> P c \<Longrightarrow> dropWhile P s = s"
  by (cases s) auto

lemma py_strip_clean: "set s \<inter> set chars = {} \<Longrightarrow> py_strip chars s = s"
proof -
  assume a: "set s \<inter> set chars = {}"
  then have 1: "dropWhile (\<lambda>c. c \<in> set chars) s = s"
    by (intro dropWhile_none) auto
  from a have 2: "dropWhile (\<lambda>c. c \<in> set chars) (rev s) = rev s"
    by (intro dropWhile_none) auto
  show ?thesis by (simp add: py_strip_def 1 2)
qed

lemma slice_index_int: "slice_index n (int i) = min i n"
  by (simp add: slice_index_def)

lemma py_slice_mid: "py_slice (A @ B @ C) (int (length A)) (int (length A + length B)) = B"
  unfolding py_slice_def slice_index_int by (simp add: Let_def)

lemma py_slice_from_end: "py_slice_from (A @ B) (int (length A)) = B"
  unfolding py_slice_from_def slice_index_int by simp

text \<open>A line that opens with \<^verbatim>\<open>#\<close> and a space has depth 1.\<close>

lemma top_heading_depth: "startswith h ''# '' \<Longrightarrow> section_depth h = 1"
proof -
  assume "startswith h ''# ''"
  then obtain t where h: "h = ''# '' @ t"
    by (metis append_take_drop_id startswith_def)
  show ?thesis
    unfolding h by (simp add: section_depth_def py_split_def)
qed

subsection \<open>Extraction on a well-shaped comment\<close>

lemma extract_type_line_shape:
  assumes "CHR ''('' \<notin> set pre" "CHR '')'' \<notin> set pre"
    and "CHR ''('' \<notin> set ty" "CHR '')'' \<notin> set ty"
  shows "extract_type_line (pre @ ''('' @ ty @ '')'' @ rest) =
     (py_replace '', '' [] (py_replace ''optional'' [] (py_replace ''|'' ''or'' ty)),
      py_strip whitespace rest)"
proof -
  let ?c = "pre @ ''('' @ ty @ '')'' @ rest"
  have l: "py_find ''('' ?c = int (length pre)"
    using find_from_single [OF assms(1), of 0 "ty @ '')'' @ rest"] by (simp add: py_find_def)
  have "CHR '')'' \<notin> set (pre @ ''('' @ ty)" using assms by simp
  from find_from_single [OF this, of 0 rest]
  have r: "py_find '')'' ?c = int (length pre + 1 + length ty)"
    by (simp add: py_find_def)
  have sl: "py_slice ?c (int (length pre)) (int (length pre + 1 + length ty)) = ''('' @ ty"
    using py_slice_mid [of pre "''('' @ ty" "'')'' @ rest"] by simp
  have st: "py_strip '')('' (''('' @ ty) = ty"
  proof -
    have "set ty \<inter> set '')('' = {}" using assms by auto
    from py_strip_clean [OF this] have "py_strip '')('' ty = ty" .
    then show ?thesis by (simp add: py_strip_def)
  qed
  have sf: "py_slice_from ?c (int (length pre + 1 + length ty) + 1) = rest"
    using py_slice_from_end [of "pre @ ''('' @ ty @ '')''" rest] by (simp add: add.commute)
  show ?thesis
    unfolding extract_type_line_def l r Let_def sl st sf by simp
qed

lemma py_replace_single_append:
  "py_replace [x] new (A @ B) = py_replace [x] new A @ py_replace [x] new B"
  by (induction A) auto

lemma set_py_replace_single: "set (py_replace [x] new A) \<subseteq> set A \<union> set new"
  by (induction A) auto

lemma comment_cut:
  assumes "\<not> occurs_in ''http'' (pre @ ''('' @ ty)" "CHR '':'' \<notin> set ty"
  shows "py_replace '':'' '' -'' (hd (py_split ''http'' (pre @ ''('' @ ty @ '')'' @ rest))) =
         py_replace '':'' '' -'' pre @ ''('' @ ty @ '')'' @
         py_replace '':'' '' -'' (hd (py_split ''http'' rest))"
proof -
  let ?A = "pre @ ''('' @ ty"
  have "py_split ''http'' (?A @ '')'' @ rest) = split_from ''http'' (?A @ '')'') rest"
    using split_from_skip [OF assms(1), of "CHR '')''" "[]" rest] by (simp add: py_split_def)
  then have h: "hd (py_split ''http'' (pre @ ''('' @ ty @ '')'' @ rest)) =
      pre @ (''('' @ ty @ '')'') @ hd (py_split ''http'' rest)"
    using hd_split_from [of "''http''" "?A @ '')''" rest] by (simp add: py_split_def)
  have c: "CHR '':'' \<notin> set (''('' @ ty @ '')'')" using assms(2) by simp
  have "py_replace '':'' '' -'' (pre @ (''('' @ ty @ '')'') @ hd (py_split ''http'' rest)) =
      py_replace '':'' '' -'' pre @ (''('' @ ty @ '')'') @
      py_replace '':'' '' -'' (hd (py_split ''http'' rest))"
    using py_replace_single_append [of "CHR '':''" "'' -''" pre
        "(''('' @ ty @ '')'') @ hd (py_split ''http'' rest)"]
      py_replace_single_skip [OF c, of "'' -''" "hd (py_split ''http'' rest)"]
    by simp
  then show ?thesis unfolding h by simp
qed

subsection \<open>The section loop\<close>

lemma section_loop_break:
  "section_depth h = 1 \<Longrightarrow>
   section_loop (pre @ h # post) st b d = section_loop pre st b d"
proof (induction pre arbitrary: st b d)
  case Nil
  then show ?case by simp
next
  case (Cons a pre)
  then show ?case by (simp add: Let_def split: sum.splits)
qed

lemma drop_index_append:
  "s \<in> set pre \<Longrightarrow>
   drop (Suc (length (takeWhile (\<lambda>y. y \<noteq> s) pre))) (pre @ R) =
   drop (Suc (length (takeWhile (\<lambda>y. y \<noteq> s) pre))) pre @ R"
  by (induction pre) auto

subsection \<open>The claims\<close>

text \<open>
  C8 (as amended). For every section \<open>s\<close> of the text, a later line of depth 1 (a top-level
  heading) ends the collection for \<open>s\<close>: the section's text is the same as if the file
  stopped before that line, so no line after it is included. A heading of depth 2 or more
  never ends the collection, whatever the depth of \<open>s\<close>: it is added as a sub-group and
  the loop goes on.
\<close>

theorem top_level_heading_ends_section:
  assumes "s \<in> set pre" "section_depth h = 1"
  shows "section_table (pre @ h # post) s = section_table pre s \<and>
     (2 \<le> section_depth g \<longrightarrow>
        section_loop (g # post) st b d =
          section_loop post
            (st @ NL @ replicate ((section_depth g - 1) * 2) CHR '' '' @ text_2_key g)
            True (section_depth g))"
proof -
  have tw: "takeWhile (\<lambda>y. y \<noteq> s) (pre @ h # post) = takeWhile (\<lambda>y. y \<noteq> s) pre"
    using assms(1) by (simp add: takeWhile_append1)
  have dr: "drop (Suc (length (takeWhile (\<lambda>y. y \<noteq> s) pre))) (pre @ h # post) =
     drop (Suc (length (takeWhile (\<lambda>y. y \<noteq> s) pre))) pre @ h # post"
    by (rule drop_index_append [OF assms(1)])
  have "section_table (pre @ h # post) s = section_table pre s"
    using assms(1) unfolding section_table_def list_index_def tw
    by (simp add: dr section_loop_break [OF assms(2)] del: drop_append drop_Suc_Cons)
  then show ?thesis by (simp add: Let_def)
qed

text \<open>The amended C8 on a top-level section: the heading \<^verbatim>\<open># Export settings\<close> ends
  \<^verbatim>\<open># Train settings\<close>, whose text has the entry before it and not the one after; the
  depth-2 heading \<^verbatim>\<open>## Tracker\<close> opens a sub-group.\<close>

theorem top_level_heading_ends_section_witness:
  "section_table
     [''# Train settings'', ''a: 1  # (int) x'', ''# Export settings'', ''c: 3  # (int) z'']
     ''# Train settings'' =
     Inr ''Train settings: \<newline>  a: \<newline>    value: 1  \<newline>    type: int\<newline>    desc: x'' \<and>
   section_loop [''## Tracker'', ''c: 3  # (int) z''] ''Train settings: '' False 0 =
     section_loop [''c: 3  # (int) z''] ''Train settings: \<newline>  Tracker: '' True 2"
proof -
  have m: "''# Train settings'' \<in> set [''# Train settings'', ''a: 1  # (int) x'']" by simp
  have d: "section_depth ''# Export settings'' = 1" by code_simp
  have g: "section_depth ''## Tracker'' = 2" by code_simp
  have g2: "2 \<le> section_depth ''## Tracker''" unfolding g by simp
  have e: "section_table [''# Train settings'', ''a: 1  # (int) x''] ''# Train settings'' =
     Inr ''Train settings: \<newline>  a: \<newline>    value: 1  \<newline>    type: int\<newline>    desc: x''"
    by code_simp
  have k: "''Train settings: '' @ NL @ replicate (((2::nat) - 1) * 2) CHR '' '' @
      text_2_key ''## Tracker'' = ''Train settings: \<newline>  Tracker: ''"
    by code_simp
  note a = top_level_heading_ends_section [OF m d, of "[''c: 3  # (int) z'']" "''## Tracker''"
      "''Train settings: ''" False 0]
  from a have 1: "section_table
     ([''# Train settings'', ''a: 1  # (int) x''] @ ''# Export settings'' # [''c: 3  # (int) z''])
     ''# Train settings'' =
     section_table [''# Train settings'', ''a: 1  # (int) x''] ''# Train settings''"
    by (rule conjunct1)
  note 2 = a [THEN conjunct2, THEN mp, OF g2, unfolded g k]
  show ?thesis
  proof (intro conjI)
    show "section_table
       [''# Train settings'', ''a: 1  # (int) x'', ''# Export settings'', ''c: 3  # (int) z'']
       ''# Train settings'' =
       Inr ''Train settings: \<newline>  a: \<newline>    value: 1  \<newline>    type: int\<newline>    desc: x''"
      using 1 e by simp
    show "section_loop [''## Tracker'', ''c: 3  # (int) z''] ''Train settings: '' False 0 =
       section_loop [''c: 3  # (int) z''] ''Train settings: \<newline>  Tracker: '' True 2"
      by (rule 2)
  qed
qed

text \<open>C8 as stated fails for a recognized section of depth 2: \<^verbatim>\<open>## Tracker\<close> has the depth of
  \<^verbatim>\<open>## Augmentation\<close> and does not end it; the entry \<open>b\<close> that follows is in the text of
  \<^verbatim>\<open>## Augmentation\<close>.\<close>

theorem equal_depth_heading_does_not_end_section:
  "sections demo_txt = [''# Export settings'', ''## Augmentation'', ''## Tracker''] \<and>
   section_depth ''## Augmentation'' = 2 \<and> section_depth ''## Tracker'' = 2 \<and>
   section_table demo_txt ''## Augmentation'' =
     Inr ''Augmentation: \<newline>  a: \<newline>    value: 1  \<newline>    type: int\<newline>    desc: x\<newline>  Tracker: \<newline>    b: \<newline>    value: 2  \<newline>    type: int\<newline>    desc: y''"
  by code_simp

text \<open>
  C9 (as amended). Take an entry line that splits at \<^verbatim>\<open># \<close> into the entry \<open>k: v\<close> and a
  comment \<open>pre (ty) rest\<close>, where \<open>pre\<close> and \<open>ty\<close> have no parenthesis, \<open>ty\<close> has no colon
  and \<^verbatim>\<open>http\<close> does not occur before the closing parenthesis. The type is \<open>ty\<close> with \<^verbatim>\<open>|\<close>
  replaced by \<^verbatim>\<open>or\<close>, then \<^verbatim>\<open>optional\<close> removed, then the comma-and-space removed; the
  description is \<open>rest\<close> cut at the first \<^verbatim>\<open>http\<close>, with every colon replaced by a space
  and a dash, and stripped of the whitespace around it.
\<close>

theorem parse_entry_shape:
  assumes sp: "py_split ''# '' line = [ent, pre @ ''('' @ ty @ '')'' @ rest]"
    and kv: "py_split '': '' ent = [k, v]"
    and pre: "CHR ''('' \<notin> set pre" "CHR '')'' \<notin> set pre"
    and ty: "CHR ''('' \<notin> set ty" "CHR '')'' \<notin> set ty" "CHR '':'' \<notin> set ty"
    and http: "\<not> occurs_in ''http'' (pre @ ''('' @ ty)"
  shows "parse_entry line =
     Inr \<lparr>e_key = k, e_value = v,
          e_type = py_replace '', '' [] (py_replace ''optional'' [] (py_replace ''|'' ''or'' ty)),
          e_desc = py_strip whitespace (py_replace '':'' '' -'' (hd (py_split ''http'' rest)))\<rparr>"
proof -
  let ?pre = "py_replace '':'' '' -'' pre"
  have p: "CHR ''('' \<notin> set ?pre" "CHR '')'' \<notin> set ?pre"
    using set_py_replace_single [of "CHR '':''" "'' -''" pre] pre by auto
  have cut: "py_replace '':'' '' -'' (hd (py_split ''http'' (pre @ ''('' @ ty @ '')'' @ rest))) =
        ?pre @ ''('' @ ty @ '')'' @ py_replace '':'' '' -'' (hd (py_split ''http'' rest))"
    by (rule comment_cut [OF http ty(3)])
  have e: "extract_type_line
         (py_replace '':'' '' -'' (hd (py_split ''http'' (pre @ ''('' @ ty @ '')'' @ rest)))) =
       (py_replace '', '' [] (py_replace ''optional'' [] (py_replace ''|'' ''or'' ty)),
        py_strip whitespace (py_replace '':'' '' -'' (hd (py_split ''http'' rest))))"
    unfolding cut by (rule extract_type_line_shape [OF p ty(1,2)])
  show ?thesis
    using e by (simp add: parse_entry_def sp kv unpack2_def)
qed

text \<open>The amended C9 on a line with a colon before the group, a union type, \<^verbatim>\<open>optional\<close>,
  a colon and a link after it, and a no-break space at the end.\<close>

theorem parse_entry_shape_witness:
  "parse_entry (''imgsz: 640  # note: (int | list, optional) size: see '' @ [CHR 0xA0] @ ''https://docs'') =
     Inr \<lparr>e_key = ''imgsz'', e_value = ''640  '', e_type = ''int or list'',
          e_desc = ''size - see''\<rparr>"
proof -
  have sp: "py_split ''# ''
      (''imgsz: 640  # note: (int | list, optional) size: see '' @ [CHR 0xA0] @ ''https://docs'') =
      [''imgsz: 640  '',
       ''note: '' @ ''('' @ ''int | list, optional'' @ '')'' @
       ('' size: see '' @ [CHR 0xA0] @ ''https://docs'')]"
    by code_simp
  have kv: "py_split '': '' ''imgsz: 640  '' = [''imgsz'', ''640  '']"
    by code_simp
  have h: "\<not> occurs_in ''http'' (''note: '' @ ''('' @ ''int | list, optional'')"
    by code_simp
  have t: "py_replace '', '' [] (py_replace ''optional'' [] (py_replace ''|'' ''or''
             ''int | list, optional'')) = ''int or list''"
    by code_simp
  have d: "py_strip whitespace (py_replace '':'' '' -'' (hd (py_split ''http''
             ('' size: see '' @ [CHR 0xA0] @ ''https://docs'')))) = ''size - see''"
    by code_simp
  show ?thesis
    using parse_entry_shape [OF sp kv _ _ _ _ _ h] unfolding t d by simp
qed

text \<open>C9 as stated fails in two ways. The colons are replaced in the whole comment before
  the type is taken out of it, so the type of \<^verbatim>\<open>(a:b)\<close> is \<^verbatim>\<open>a -b\<close>, not the contents of
  the group (and the description has lost the space after the parenthesis). The comment is
  also cut at \<^verbatim>\<open>http\<close> before the type is taken, so for \<^verbatim>\<open>(http) d\<close> the type is empty and
  the description is the opening parenthesis.\<close>

theorem colon_in_type_is_replaced:
  "parse_entry ''k: v  # (a:b) d'' =
     Inr \<lparr>e_key = ''k'', e_value = ''v  '', e_type = ''a -b'', e_desc = ''d''\<rparr> \<and>
   parse_entry ''k: v  # (http) d'' =
     Inr \<lparr>e_key = ''k'', e_value = ''v  '', e_type = [], e_desc = ''(''\<rparr>"
  by code_simp

end
